theory Spec2Isabelle
  imports Main
begin

section \<open>AirBridge: the peer link state machine and the chunked file transfer\<close>

text \<open>
  The model follows the client \<open>App.jsx\<close> (the version with the connection state machine,
  64 KiB chunks and backpressure) and the signaling server \<open>index.js\<close>.
  Handlers become functions from state to state; the values of \<open>useRef\<close> and
  \<open>useState\<close> cells that drive control flow become record fields. Progress and speed,
  which are floating point numbers shown by the user interface and read by no handler, are
  left out, as are the log calls.
\<close>

subsection \<open>Payloads, JSON values and the JavaScript runtime\<close>

text \<open>
  A data channel payload is a byte sequence; \<open>char\<close> is a byte, so \<open>length\<close> is
  \<open>data.length\<close> and \<open>byteLength\<close>.
\<close>

type_synonym payload = string

text \<open>
  The values \<open>JSON.parse\<close> returns. Numbers are integers here: the only number the
  handlers compute with is a byte count.
\<close>

datatype json =
    JNull
  | JBool bool
  | JNum int
  | JStr string
  | JArr "json list"
  | JObj "(string \<times> json) list"

text \<open>
  The built-in functions the handlers call are not code of the repository; they are
  parameters of the model.
  \<^item> \<open>JSON_parse d\<close> is \<open>JSON.parse(d.toString())\<close>; \<open>None\<close> is the SyntaxError.
  \<^item> \<open>JSON_stringify v\<close> is the text \<open>JSON.stringify(v)\<close>.
  \<^item> \<open>ToNumber_object v\<close> is the number JavaScript converts a string, an array or an
    object to when it is compared with a number; \<open>None\<close> is NaN.
\<close>

record runtime =
  JSON_parse :: "payload \<Rightarrow> json option"
  JSON_stringify :: "json \<Rightarrow> payload"
  ToNumber_object :: "json \<Rightarrow> int option"

text \<open>
  \<open>message.k\<close> on a parsed value other than \<open>null\<close>, for the keys the data handler
  reads (\<open>type\<close>, \<open>name\<close>, \<open>size\<close>): an object answers its own property (the last
  one when the text repeats a key), every other value answers \<open>undefined\<close>, which is
  \<open>None\<close>. Reading a property of \<open>null\<close> throws; the handler below treats \<open>JNull\<close>
  before it looks a property up.
\<close>

fun lookup :: "json \<Rightarrow> string \<Rightarrow> json option" where
  "lookup (JObj kvs) k = map_of (rev kvs) k"
| "lookup v k = None"

text \<open>
  The number a value is converted to by \<open>>=\<close> against a number: \<open>undefined\<close> is NaN,
  \<open>null\<close> is 0, \<open>true\<close> is 1, \<open>false\<close> is 0.
\<close>

definition ToNumber :: "runtime \<Rightarrow> json option \<Rightarrow> int option" where
  "ToNumber js v =
     (case v of
        None \<Rightarrow> None
      | Some JNull \<Rightarrow> Some 0
      | Some (JBool b) \<Rightarrow> Some (if b then 1 else 0)
      | Some (JNum n) \<Rightarrow> Some n
      | Some w \<Rightarrow> ToNumber_object js w)"

text \<open>\<open>n >= v\<close> for a byte count \<open>n\<close>: false when \<open>v\<close> converts to NaN.\<close>

definition ge_js :: "runtime \<Rightarrow> nat \<Rightarrow> json option \<Rightarrow> bool" where
  "ge_js js n v = (case ToNumber js v of None \<Rightarrow> False | Some t \<Rightarrow> t \<le> int n)"

subsection \<open>The receiver: \<open>peer.on('data')\<close> and \<open>assembleAndDownloadFile\<close>\<close>

text \<open>
  \<open>fileChunksRef\<close>, \<open>receivedBytesRef\<close>, \<open>totalFileSizeRef\<close>, the states
  \<open>receivingFileName\<close> and \<open>receiving\<close>, the content of the Blob behind
  \<open>completedFileUrl\<close>, and the Blobs handed to the browser by the automatic download,
  in order.
\<close>

record receiver =
  fileChunks :: "payload list"
  receivedBytes :: nat
  totalFileSize :: "json option"
  receivingFileName :: "json option"
  receiving :: bool
  completedFile :: "payload option"
  downloads :: "payload list"

definition initial_receiver :: receiver where
  "initial_receiver =
     \<lparr>fileChunks = [], receivedBytes = 0, totalFileSize = Some (JNum 0),
      receivingFileName = Some (JStr ''''), receiving = False,
      completedFile = None, downloads = []\<rparr>"

definition assembleAndDownloadFile :: "receiver \<Rightarrow> receiver" where
  "assembleAndDownloadFile r =
     (let blob = concat (fileChunks r)
      in r\<lparr>completedFile := Some blob, downloads := downloads r @ [blob], receiving := False\<rparr>)"

text \<open>The \<open>catch\<close> branch of the data handler: the payload is taken as a file chunk.\<close>

definition receive_chunk :: "runtime \<Rightarrow> payload \<Rightarrow> receiver \<Rightarrow> receiver" where
  "receive_chunk js data r =
     (let r1 = r\<lparr>fileChunks := fileChunks r @ [data],
                 receivedBytes := receivedBytes r + length data\<rparr>
      in if ge_js js (receivedBytes r1) (totalFileSize r1)
         then assembleAndDownloadFile r1 else r1)"

text \<open>The branch \<open>message.type === 'metadata'\<close>.\<close>

definition receive_metadata :: "json \<Rightarrow> receiver \<Rightarrow> receiver" where
  "receive_metadata message r =
     r\<lparr>receivingFileName := lookup message ''name'',
       totalFileSize := lookup message ''size'',
       receivedBytes := 0,
       fileChunks := [],
       receiving := True\<rparr>"

text \<open>
  The handler. \<open>JSON.parse\<close> and the test of \<open>message.type\<close> stand in one \<open>try\<close>
  block, so the \<open>catch\<close> branch runs when the text is not JSON and also when the text is
  \<open>null\<close>, where reading \<open>message.type\<close> throws a TypeError.
\<close>

definition peer_on_data :: "runtime \<Rightarrow> payload \<Rightarrow> receiver \<Rightarrow> receiver" where
  "peer_on_data js data r =
     (case JSON_parse js data of
        None \<Rightarrow> receive_chunk js data r
      | Some JNull \<Rightarrow> receive_chunk js data r
      | Some message \<Rightarrow>
          if lookup message ''type'' = Some (JStr ''metadata'')
          then receive_metadata message r
          else r)"

text \<open>The payloads of a channel, handled in the order they arrive.\<close>

definition receive_all :: "runtime \<Rightarrow> payload list \<Rightarrow> receiver \<Rightarrow> receiver" where
  "receive_all js ps r = fold (peer_on_data js) ps r"

subsection \<open>The sender: \<open>sendFileDirectly\<close> and \<open>sendNextChunk\<close>\<close>

definition CHUNK_SIZE :: nat where
  "CHUNK_SIZE = 64 * 1024"

text \<open>
  What \<open>peerRef.current.write(chunk)\<close> does: it throws, or it returns whether the
  sender can continue. The channel is a parameter: it answers the write of the chunk
  with a given \<open>chunkNumber\<close>.
\<close>

datatype write_result = WriteThrows | CanContinue bool

text \<open>
  The callback that will call \<open>sendNextChunk\<close> again: none, the one given to
  \<open>setTimeout(sendNextChunk, 0)\<close>, or the one given to \<open>once('drain', ...)\<close>.
\<close>

datatype resume = NoResume | OnTimeout | OnDrain

text \<open>
  The variables of one call of \<open>sendFileDirectly\<close>: the buffer, \<open>offset\<close>,
  \<open>chunkNumber\<close>, \<open>signal.aborted\<close>, the states \<open>sending\<close> and
  \<open>transferComplete\<close>, and \<open>wire\<close>: the payloads this call has handed to the link
  with \<open>send\<close> and \<open>write\<close>, in order; what the link does with them is described
  below. The timer that sets \<open>transferComplete\<close> back to false three seconds after the
  end is left out.
\<close>

record sender =
  arrayBuffer :: payload
  offset :: nat
  chunkNumber :: nat
  aborted :: bool
  sending :: bool
  transferComplete :: bool
  wire :: "payload list"
  resume :: resume

definition sendNextChunk :: "(nat \<Rightarrow> write_result) \<Rightarrow> sender \<Rightarrow> sender" where
  "sendNextChunk chan s =
     (if aborted s then s\<lparr>sending := False, resume := NoResume\<rparr>
      else if offset s \<ge> length (arrayBuffer s)
      then s\<lparr>sending := False, transferComplete := True, resume := NoResume\<rparr>
      else
        (let chunk = take CHUNK_SIZE (drop (offset s) (arrayBuffer s));
             k = chunkNumber s + 1
         in case chan k of
              WriteThrows \<Rightarrow> s\<lparr>chunkNumber := k, sending := False, resume := NoResume\<rparr>
            | CanContinue c \<Rightarrow>
                s\<lparr>chunkNumber := k,
                  wire := wire s @ [chunk],
                  offset := offset s + length chunk,
                  resume := (if c then OnTimeout else OnDrain)\<rparr>))"

definition metadata_record :: "string \<Rightarrow> nat \<Rightarrow> json" where
  "metadata_record name sz =
     JObj [(''type'', JStr ''metadata''), (''name'', JStr name), (''size'', JNum (int sz))]"

definition idle_sender :: sender where
  "idle_sender =
     \<lparr>arrayBuffer = [], offset = 0, chunkNumber = 0, aborted = False, sending = False,
      transferComplete = False, wire = [], resume = NoResume\<rparr>"


text \<open>The two events that call \<open>sendNextChunk\<close> again; each callback runs once.\<close>

datatype sender_event = Timeout | Drain

definition sender_step :: "(nat \<Rightarrow> write_result) \<Rightarrow> sender_event \<Rightarrow> sender \<Rightarrow> sender" where
  "sender_step chan ev s =
     (case ev of
        Timeout \<Rightarrow> if resume s = OnTimeout then sendNextChunk chan (s\<lparr>resume := NoResume\<rparr>) else s
      | Drain \<Rightarrow> if resume s = OnDrain then sendNextChunk chan (s\<lparr>resume := NoResume\<rparr>) else s)"

text \<open>The slices \<open>arrayBuffer.slice(offset, offset + CHUNK_SIZE)\<close> from an offset on.\<close>

function slices :: "nat \<Rightarrow> payload \<Rightarrow> payload list" where
  "slices off buf =
     (if off \<ge> length buf then []
      else take CHUNK_SIZE (drop off buf) # slices (off + length (take CHUNK_SIZE (drop off buf))) buf)"
  by pat_completeness auto
termination
  by (relation "measure (\<lambda>(off, buf). length buf - off)") (auto simp: CHUNK_SIZE_def)

subsection \<open>The link of simple-peer: \<open>send\<close> and \<open>write\<close>\<close>

text \<open>
  The link is an object of the library simple-peer, a Duplex stream of the library
  readable-stream (version 3); neither is code of the repository, and the two functions
  below are written from the library.
  \<^item> \<open>send(chunk)\<close> passes the chunk to the data channel.
  \<^item> \<open>write(chunk)\<close> is \<open>Writable.write\<close> of the stream. It takes a string or a
    \<open>Uint8Array\<close> (a \<open>Buffer\<close> is one). It passes such a chunk on and answers whether
    the buffer of the stream is below its mark. For any other chunk, and an
    \<open>ArrayBuffer\<close> is not a \<open>Uint8Array\<close>, it emits \<open>error\<close> in the same turn,
    answers false and passes nothing on; no \<open>drain\<close> event follows.
  A value handed to the link is one of these three kinds.
\<close>

datatype js_chunk = JsString payload | JsUint8Array payload | JsArrayBuffer payload

text \<open>
  \<open>Writable_write below_mark chunk\<close>: the answer, what is passed on to the data
  channel, and whether \<open>error\<close> is emitted.
\<close>

definition Writable_write :: "bool \<Rightarrow> js_chunk \<Rightarrow> write_result \<times> payload list \<times> bool" where
  "Writable_write below_mark chunk =
     (case chunk of
        JsString b \<Rightarrow> (CanContinue below_mark, [b], False)
      | JsUint8Array b \<Rightarrow> (CanContinue below_mark, [b], False)
      | JsArrayBuffer b \<Rightarrow> (CanContinue False, [], True))"

text \<open>
  \<open>sendNextChunk\<close> hands \<open>write\<close> the value of \<open>arrayBuffer.slice(...)\<close>, which is an
  \<open>ArrayBuffer\<close>. So this is what the link answers to the write of every chunk.
\<close>

definition link_answer :: "nat \<Rightarrow> write_result" where
  "link_answer k = CanContinue False"


subsection \<open>The connection state machine\<close>

datatype ConnectionState =
  DISCONNECTED | SIGNALING | CONNECTING | CONNECTED | FAILED | RECONNECTING

definition MAX_RECONNECT_ATTEMPTS :: nat where
  "MAX_RECONNECT_ATTEMPTS = 3"

definition RECONNECT_DELAY :: nat where
  "RECONNECT_DELAY = 2000"

text \<open>
  A signal relayed by the server: its \<open>type\<close> (\<open>None\<close> when the field is absent) and
  its \<open>candidate\<close> field (\<open>None\<close> when absent; a candidate that is present is an
  object, which JavaScript takes as true).
\<close>

record signal =
  sig_type :: "string option"
  candidate :: "string option"

text \<open>
  The link made by \<open>new SimplePeer\<close>: its \<open>initiator\<close> option and the signals
  given to it with \<open>peer.signal\<close>, in order.
\<close>

record peer =
  initiator :: bool
  signalled :: "signal list"

text \<open>
  The state of the component: the state \<open>connectionState\<close> and \<open>isInitiator\<close>, the
  refs, the callbacks \<open>setTimeout\<close> holds (handle, delay, the \<open>initiator\<close> argument of
  the \<open>createPeer\<close> call it will make), the next handle \<open>setTimeout\<close> returns, the
  links \<open>destroy()\<close> was called on, and the receiver.
\<close>

record app =
  connectionState :: ConnectionState
  isInitiator :: bool
  peerRef :: "peer option"
  iceCandidateQueue :: "signal list"
  remoteDescriptionSet :: bool
  reconnectAttempts :: nat
  isReconnecting :: bool
  reconnectTimeout :: "nat option"
  timers :: "(nat \<times> nat \<times> bool) list"
  nextTimer :: nat
  destroyed :: "peer list"
  rx :: receiver

definition initial_app :: app where
  "initial_app =
     \<lparr>connectionState = DISCONNECTED, isInitiator = False, peerRef = None,
      iceCandidateQueue = [], remoteDescriptionSet = False, reconnectAttempts = 0,
      isReconnecting = False, reconnectTimeout = None, timers = [], nextTimer = 1,
      destroyed = [], rx = initial_receiver\<rparr>"

definition createPeer :: "bool \<Rightarrow> app \<Rightarrow> app" where
  "createPeer i st =
     st\<lparr>iceCandidateQueue := [], remoteDescriptionSet := False,
        peerRef := Some \<lparr>initiator = i, signalled = []\<rparr>\<rparr>"

text \<open>\<open>if (peerRef.current) { peerRef.current.destroy(); peerRef.current = null; }\<close>\<close>

definition destroy_peer :: "app \<Rightarrow> app" where
  "destroy_peer st =
     (case peerRef st of
        None \<Rightarrow> st
      | Some p \<Rightarrow> st\<lparr>destroyed := destroyed st @ [p], peerRef := None\<rparr>)"

definition clearTimeout :: "nat \<Rightarrow> app \<Rightarrow> app" where
  "clearTimeout h st = st\<lparr>timers := filter (\<lambda>t. fst t \<noteq> h) (timers st)\<rparr>"

definition attemptReconnection :: "bool \<Rightarrow> app \<Rightarrow> app" where
  "attemptReconnection i st =
     (if reconnectAttempts st \<ge> MAX_RECONNECT_ATTEMPTS
      then st\<lparr>connectionState := FAILED, isReconnecting := False\<rparr>
      else st\<lparr>reconnectAttempts := reconnectAttempts st + 1,
              isReconnecting := True,
              connectionState := RECONNECTING,
              reconnectTimeout := Some (nextTimer st),
              timers := timers st @ [(nextTimer st, RECONNECT_DELAY, i)],
              nextTimer := nextTimer st + 1\<rparr>)"

definition socket_on_room_users :: "string list \<Rightarrow> app \<Rightarrow> app" where
  "socket_on_room_users users st =
     (if length users > 0
      then st\<lparr>isInitiator := False, connectionState := SIGNALING\<rparr>
      else st\<lparr>isInitiator := True, connectionState := SIGNALING\<rparr>)"

definition socket_on_user_connected :: "app \<Rightarrow> app" where
  "socket_on_user_connected st =
     (if peerRef st = None \<and> \<not> isReconnecting st
      then createPeer True (st\<lparr>connectionState := CONNECTING\<rparr>)
      else st)"

text \<open>
  The loop that empties the queue: each candidate is taken from the front and given to
  the link inside its own \<open>try\<close>; one the link throws on is logged and dropped.
  \<open>thr\<close> says on which signals \<open>peer.signal\<close> throws.
\<close>

fun flush_queue :: "(signal \<Rightarrow> bool) \<Rightarrow> signal list \<Rightarrow> peer \<Rightarrow> peer" where
  "flush_queue thr [] p = p"
| "flush_queue thr (c # q) p =
     flush_queue thr q (if thr c then p else p\<lparr>signalled := signalled p @ [c]\<rparr>)"

definition socket_on_signal :: "(signal \<Rightarrow> bool) \<Rightarrow> signal \<Rightarrow> app \<Rightarrow> app" where
  "socket_on_signal thr sg st =
     (let st1 = (if peerRef st = None \<and> \<not> isReconnecting st
                 then createPeer False (st\<lparr>connectionState := CONNECTING\<rparr>)
                 else st)
      in case peerRef st1 of
           None \<Rightarrow> st1
         | Some p \<Rightarrow>
             if thr sg then st1
             else
               (let p1 = p\<lparr>signalled := signalled p @ [sg]\<rparr>;
                    st2 = st1\<lparr>peerRef := Some p1\<rparr>;
                    st3 = (if sig_type sg = Some ''answer'' \<or> sig_type sg = Some ''offer''
                           then st2\<lparr>remoteDescriptionSet := True,
                                    peerRef := Some (flush_queue thr (iceCandidateQueue st2) p1),
                                    iceCandidateQueue := []\<rparr>
                           else st2)
                in if candidate sg \<noteq> None \<and> \<not> remoteDescriptionSet st3
                   then st3\<lparr>iceCandidateQueue := iceCandidateQueue st3 @ [sg]\<rparr>
                   else st3))"

definition handlePeerDisconnection :: "app \<Rightarrow> app" where
  "handlePeerDisconnection st =
     (destroy_peer (st\<lparr>connectionState := DISCONNECTED\<rparr>))
       \<lparr>iceCandidateQueue := [], remoteDescriptionSet := False\<rparr>"

definition peer_on_connect :: "app \<Rightarrow> app" where
  "peer_on_connect st =
     (let st1 = st\<lparr>connectionState := CONNECTED, reconnectAttempts := 0,
                   isReconnecting := False\<rparr>
      in case reconnectTimeout st1 of
           None \<Rightarrow> st1
         | Some h \<Rightarrow> (clearTimeout h st1)\<lparr>reconnectTimeout := None\<rparr>)"

text \<open>
  The handlers of \<open>error\<close> and \<open>close\<close> read the variable \<open>connectionState\<close> of the
  function call that made them; \<open>cs\<close> is that value. \<open>i\<close> is the \<open>initiator\<close> argument
  of the \<open>createPeer\<close> call that registered the handler.
\<close>

definition peer_on_error :: "ConnectionState \<Rightarrow> bool \<Rightarrow> app \<Rightarrow> app" where
  "peer_on_error cs i st =
     (if cs = CONNECTED then st
      else
        (let st1 = destroy_peer st
         in if \<not> isReconnecting st1 then attemptReconnection i st1 else st1))"

definition peer_on_close :: "ConnectionState \<Rightarrow> bool \<Rightarrow> app \<Rightarrow> app" where
  "peer_on_close cs i st =
     (if cs = CONNECTED \<or> cs = CONNECTING
      then
        (let st1 = destroy_peer st
         in if \<not> isReconnecting st1 then attemptReconnection i st1 else st1)
      else st\<lparr>connectionState := DISCONNECTED\<rparr>)"

text \<open>The callback of the reconnection timer with handle \<open>h\<close>, if it is still held.\<close>

definition timer_fired :: "nat \<Rightarrow> app \<Rightarrow> app" where
  "timer_fired h st =
     (case find (\<lambda>t. fst t = h) (timers st) of
        None \<Rightarrow> st
      | Some t \<Rightarrow> createPeer (snd (snd t)) (clearTimeout h st))"

text \<open>The click handler of the Leave button.\<close>

definition leave :: "app \<Rightarrow> app" where
  "leave st =
     (let st1 = (destroy_peer st)\<lparr>connectionState := DISCONNECTED, reconnectAttempts := 0,
                                 isReconnecting := False\<rparr>
      in case reconnectTimeout st1 of
           None \<Rightarrow> st1
         | Some h \<Rightarrow> clearTimeout h st1)"

text \<open>
  \<open>App\<close> is a React function component. Every handler of the socket is registered in
  the effect \<open>useEffect(() => {...}, [])\<close>, which runs once, after the first call of
  \<open>App\<close>; the \<open>createPeer\<close>, \<open>attemptReconnection\<close> and \<open>connectionState\<close> these
  handlers name are the constants of that first call, and so are the ones named by the
  handlers \<open>createPeer\<close> registers on a link and by the timer callback. In that call
  \<open>connectionState\<close> is the initial value given to \<open>useState\<close>. The setter
  \<open>setConnectionState\<close> changes the state the next call of \<open>App\<close> reads (the field
  \<open>connectionState\<close> of the model), not the constant of the first call.
\<close>

definition closure_connectionState :: ConnectionState where
  "closure_connectionState = DISCONNECTED"

datatype event =
    SocketConnect
  | SocketDisconnect
  | RoomUsers "string list"
  | UserConnected string
  | Signal signal
  | UserDisconnected string
  | PeerConnect
  | PeerData payload
  | PeerError bool
  | PeerClose bool
  | TimerFired nat
  | Leave

definition step :: "runtime \<Rightarrow> (signal \<Rightarrow> bool) \<Rightarrow> event \<Rightarrow> app \<Rightarrow> app" where
  "step js thr ev st =
     (case ev of
        SocketConnect \<Rightarrow> st\<lparr>connectionState := DISCONNECTED\<rparr>
      | SocketDisconnect \<Rightarrow> st\<lparr>connectionState := DISCONNECTED\<rparr>
      | RoomUsers users \<Rightarrow> socket_on_room_users users st
      | UserConnected u \<Rightarrow> socket_on_user_connected st
      | Signal sg \<Rightarrow> socket_on_signal thr sg st
      | UserDisconnected u \<Rightarrow> handlePeerDisconnection st
      | PeerConnect \<Rightarrow> peer_on_connect st
      | PeerData d \<Rightarrow> st\<lparr>rx := peer_on_data js d (rx st)\<rparr>
      | PeerError i \<Rightarrow> peer_on_error closure_connectionState i st
      | PeerClose i \<Rightarrow> peer_on_close closure_connectionState i st
      | TimerFired h \<Rightarrow> timer_fired h st
      | Leave \<Rightarrow> leave st)"

definition run :: "runtime \<Rightarrow> (signal \<Rightarrow> bool) \<Rightarrow> event list \<Rightarrow> app \<Rightarrow> app" where
  "run js thr evs st = fold (step js thr) evs st"

subsection \<open>The signaling server: \<open>join-room\<close> and \<open>disconnect\<close>\<close>

text \<open>
  \<open>rooms\<close> maps a room to the set of its members; a JavaScript \<open>Set\<close> keeps the order
  of insertion, so the set is a list without repetition. \<open>join_room\<close> returns the new
  map and the list sent to the joiner as \<open>room-users\<close>.
\<close>

definition join_room ::
  "string \<Rightarrow> string \<Rightarrow> (string \<rightharpoonup> string list) \<Rightarrow> (string \<rightharpoonup> string list) \<times> string list" where
  "join_room sid roomId rooms =
     (let members = (case rooms roomId of None \<Rightarrow> [] | Some m \<Rightarrow> m);
          members' = (if sid \<in> set members then members else members @ [sid])
      in (rooms(roomId \<mapsto> members'), filter (\<lambda>id. id \<noteq> sid) members'))"

definition disconnect :: "string \<Rightarrow> (string \<rightharpoonup> string list) \<Rightarrow> (string \<rightharpoonup> string list)" where
  "disconnect sid rooms =
     (\<lambda>roomId.
        case rooms roomId of
          None \<Rightarrow> None
        | Some m \<Rightarrow>
            if sid \<in> set m
            then (if removeAll sid m = [] then None else Some (removeAll sid m))
            else Some m)"

subsection \<open>Auxiliary notions for the statements\<close>

text \<open>
  A payload the data handler takes as a file chunk: \<open>JSON.parse\<close> throws on its text,
  or the text is \<open>null\<close>.
\<close>

definition raw :: "runtime \<Rightarrow> payload \<Rightarrow> bool" where
  "raw js d = (JSON_parse js d = None \<or> JSON_parse js d = Some JNull)"

text \<open>
  The runtime of the concrete runs below: \<open>JSON.parse\<close> answers the listed texts with the
  listed values and throws on every other text of the run, \<open>JSON.stringify\<close> answers a
  listed value with its text. No run below converts a string, an array or an object to a
  number.
\<close>

definition example_runtime :: "(payload \<times> json) list \<Rightarrow> runtime" where
  "example_runtime table =
     \<lparr>JSON_parse = map_of table,
      JSON_stringify = (\<lambda>v. case find (\<lambda>e. snd e = v) table of None \<Rightarrow> [] | Some e \<Rightarrow> fst e),
      ToNumber_object = (\<lambda>v. None)\<rparr>"

text \<open>A channel that is always full, one that never is, and a link that takes every
  signal.\<close>

definition always_full :: "nat \<Rightarrow> write_result" where
  "always_full k = CanContinue False"

definition never_full :: "nat \<Rightarrow> write_result" where
  "never_full k = CanContinue True"

definition never_throws :: "signal \<Rightarrow> bool" where
  "never_throws sg = False"

text \<open>
  The invariant of the reconnection counter: at most one attempt is ever counted, and
  while it is counted a reconnection is pending.
\<close>

definition attempts_inv :: "app \<Rightarrow> bool" where
  "attempts_inv st =
     (connectionState st \<noteq> FAILED \<and> reconnectAttempts st \<le> 1
      \<and> (reconnectAttempts st = 1 \<longrightarrow> isReconnecting st))"

section \<open>Lemmas\<close>

declare slices.simps [simp del]

subsection \<open>Slices\<close>

lemma take_drop_self: "take n ys @ drop (length (take n ys)) ys = ys"
  by (cases "n \<le> length ys") (simp_all add: min_def)

lemma slices_end: "length buf \<le> off \<Longrightarrow> slices off buf = []"
  by (subst slices.simps) simp

lemma slices_step:
  "off < length buf \<Longrightarrow>
   slices off buf =
     take CHUNK_SIZE (drop off buf) # slices (off + length (take CHUNK_SIZE (drop off buf))) buf"
  by (subst slices.simps) simp

lemma concat_slices: "concat (slices off buf) = drop off buf"
proof (induction off buf rule: slices.induct)
  case (1 off buf)
  show ?case
  proof (cases "off \<ge> length buf")
    case True
    then show ?thesis by (simp add: slices_end)
  next
    case False
    let ?c = "take CHUNK_SIZE (drop off buf)"
    have "concat (slices off buf) = ?c @ concat (slices (off + length ?c) buf)"
      using False by (simp add: slices_step)
    also have "\<dots> = ?c @ drop (off + length ?c) buf"
      using 1 False by simp
    also have "\<dots> = ?c @ drop (length ?c) (drop off buf)"
      by (simp add: add.commute)
    also have "\<dots> = drop off buf"
      by (rule take_drop_self)
    finally show ?thesis .
  qed
qed

lemma slices_nonempty: "list_all (\<lambda>c. c \<noteq> []) (slices off buf)"
proof (induction off buf rule: slices.induct)
  case (1 off buf)
  show ?case
  proof (cases "off \<ge> length buf")
    case True
    then show ?thesis by (simp add: slices_end)
  next
    case False
    then show ?thesis
      using 1 by (simp add: slices_step CHUNK_SIZE_def)
  qed
qed

subsection \<open>The sender\<close>

lemma sendNextChunk_done:
  "\<not> aborted s \<Longrightarrow> offset s \<ge> length (arrayBuffer s) \<Longrightarrow>
   sendNextChunk chan s = s\<lparr>sending := False, transferComplete := True, resume := NoResume\<rparr>"
  by (simp add: sendNextChunk_def)

lemma sendNextChunk_write:
  "\<not> aborted s \<Longrightarrow> offset s < length (arrayBuffer s) \<Longrightarrow>
   chan (chunkNumber s + 1) = CanContinue c \<Longrightarrow>
   sendNextChunk chan s =
     s\<lparr>chunkNumber := chunkNumber s + 1,
       wire := wire s @ [take CHUNK_SIZE (drop (offset s) (arrayBuffer s))],
       offset := offset s + length (take CHUNK_SIZE (drop (offset s) (arrayBuffer s))),
       resume := (if c then OnTimeout else OnDrain)\<rparr>"
  by (simp add: sendNextChunk_def Let_def)

text \<open>While the sender waits for the drain event, no other event makes it write.\<close>

lemma waits_for_drain:
  "resume t = OnDrain \<Longrightarrow> Drain \<notin> set evs \<Longrightarrow> fold (sender_step chan) evs t = t"
proof (induction evs)
  case Nil
  then show ?case by simp
next
  case (Cons e evs)
  then have "e = Timeout" by (cases e) auto
  then have "sender_step chan e t = t"
    using Cons.prems(1) by (simp add: sender_step_def)
  then show ?case using Cons by simp
qed

subsection \<open>The receiver\<close>

lemma peer_on_data_raw: "raw js d \<Longrightarrow> peer_on_data js d r = receive_chunk js d r"
  by (auto simp: raw_def peer_on_data_def)

lemma peer_on_data_metadata:
  "JSON_parse js d = Some (metadata_record name n) \<Longrightarrow>
   peer_on_data js d r =
     r\<lparr>receivingFileName := Some (JStr name), totalFileSize := Some (JNum (int n)),
       receivedBytes := 0, fileChunks := [], receiving := True\<rparr>"
  by (simp add: peer_on_data_def metadata_record_def receive_metadata_def)

text \<open>
  A text that is JSON, is not \<open>null\<close> and has no \<open>type\<close> equal to \<open>'metadata'\<close>
  changes nothing.
\<close>

lemma peer_on_data_json_discarded:
  "JSON_parse js d = Some v \<Longrightarrow> v \<noteq> JNull \<Longrightarrow> lookup v ''type'' \<noteq> Some (JStr ''metadata'')
   \<Longrightarrow> peer_on_data js d r = r"
  by (cases v) (simp_all add: peer_on_data_def)

lemma receive_all_Cons: "receive_all js (d # ds) r = receive_all js ds (peer_on_data js d r)"
  by (simp add: receive_all_def)

lemma receive_all_append:
  "receive_all js (ds @ es) r = receive_all js es (receive_all js ds r)"
  by (simp add: receive_all_def)

lemma ge_js_mono: "ge_js js a t \<Longrightarrow> ge_js js (a + n) t"
  by (auto simp: ge_js_def split: option.splits)

text \<open>
  Chunks that fill the announced total exactly: nothing is assembled before the last
  one, and the last one assembles all of them.
\<close>

lemma receive_chunks_complete:
  assumes "totalFileSize r = Some (JNum (int T))"
    and "list_all (raw js) cs" and "list_all (\<lambda>c. c \<noteq> []) cs" and "cs \<noteq> []"
    and "receivedBytes r + length (concat cs) = T"
  shows "receive_all js cs r =
           r\<lparr>fileChunks := fileChunks r @ cs, receivedBytes := T,
             completedFile := Some (concat (fileChunks r @ cs)),
             downloads := downloads r @ [concat (fileChunks r @ cs)],
             receiving := False\<rparr>"
  using assms
proof (induction cs arbitrary: r)
  case Nil
  then show ?case by simp
next
  case (Cons c cs)
  have first: "peer_on_data js c r = receive_chunk js c r"
    using Cons.prems(2) by (simp add: peer_on_data_raw)
  show ?case
  proof (cases cs)
    case Nil
    then show ?thesis
      using Cons.prems first
      by (simp add: receive_all_def receive_chunk_def ge_js_def ToNumber_def
          assembleAndDownloadFile_def Let_def)
  next
    case (Cons c' cs')
    define r1 where "r1 = r\<lparr>fileChunks := fileChunks r @ [c],
                 receivedBytes := receivedBytes r + length c\<rparr>"
    have less: "receivedBytes r + length c < T"
      using Cons.prems Cons by auto
    have r1: "peer_on_data js c r = r1"
      using first less Cons.prems(1)
      by (simp add: receive_chunk_def ge_js_def ToNumber_def Let_def r1_def)
    have "receive_all js cs r1 =
           r1\<lparr>fileChunks := fileChunks r1 @ cs, receivedBytes := T,
             completedFile := Some (concat (fileChunks r1 @ cs)),
             downloads := downloads r1 @ [concat (fileChunks r1 @ cs)],
             receiving := False\<rparr>"
      using Cons.prems Cons by (intro Cons.IH) (auto simp: r1_def)
    then show ?thesis
      using r1 by (simp add: receive_all_def r1_def)
  qed
qed

text \<open>The metadata of a non-empty file followed by its slices, from any receiver state.\<close>

lemma receive_transfer:
  assumes "content \<noteq> []"
    and "JSON_parse js md = Some (metadata_record name (length content))"
    and "list_all (raw js) (slices 0 content)"
  shows "receive_all js (md # slices 0 content) r =
           r\<lparr>receivingFileName := Some (JStr name),
             totalFileSize := Some (JNum (int (length content))),
             fileChunks := slices 0 content, receivedBytes := length content,
             completedFile := Some content, downloads := downloads r @ [content],
             receiving := False\<rparr>"
proof -
  define r1 where "r1 = peer_on_data js md r"
  have r1: "r1 = r\<lparr>receivingFileName := Some (JStr name),
       totalFileSize := Some (JNum (int (length content))),
       receivedBytes := 0, fileChunks := [], receiving := True\<rparr>"
    unfolding r1_def using assms(2) by (rule peer_on_data_metadata)
  have ne: "slices 0 content \<noteq> []"
    using assms(1) by (simp add: slices_step)
  have "receive_all js (slices 0 content) r1 =
           r1\<lparr>fileChunks := fileChunks r1 @ slices 0 content, receivedBytes := length content,
             completedFile := Some (concat (fileChunks r1 @ slices 0 content)),
             downloads := downloads r1 @ [concat (fileChunks r1 @ slices 0 content)],
             receiving := False\<rparr>"
    by (rule receive_chunks_complete)
       (simp_all add: r1 assms(3) slices_nonempty ne concat_slices)
  then show ?thesis
    by (simp add: receive_all_Cons r1_def[symmetric] r1 concat_slices)
qed

text \<open>The link answers the write of an \<open>ArrayBuffer\<close> as \<open>link_answer\<close> says.\<close>

lemma Writable_write_ArrayBuffer:
  "Writable_write below_mark (JsArrayBuffer b) = (link_answer k, [], True)"
  by (simp add: Writable_write_def link_answer_def)


lemma example_raw: "length d \<noteq> length t \<Longrightarrow> raw (example_runtime [(t, v)]) d"
  by (auto simp: raw_def example_runtime_def)

subsection \<open>The connection state machine\<close>

lemmas handler_defs =
  run_def step_def socket_on_room_users_def socket_on_user_connected_def socket_on_signal_def
  handlePeerDisconnection_def peer_on_connect_def peer_on_error_def peer_on_close_def
  timer_fired_def leave_def createPeer_def destroy_peer_def clearTimeout_def
  attemptReconnection_def closure_connectionState_def MAX_RECONNECT_ATTEMPTS_def
  RECONNECT_DELAY_def Let_def

text \<open>
  The reconnection counter never passes 1 and \<open>FAILED\<close> is never entered: after the
  first call of \<open>attemptReconnection\<close> the flag \<open>isReconnectingRef\<close> stays set until a
  link connects or the user leaves, both of which reset the counter, and the handlers of
  \<open>error\<close> and \<open>close\<close> call \<open>attemptReconnection\<close> only while the flag is not set.
\<close>

lemma step_attempts_inv: "attempts_inv st \<Longrightarrow> attempts_inv (step js thr ev st)"
  by (cases ev)
     (auto simp: attempts_inv_def step_def socket_on_room_users_def socket_on_user_connected_def
        socket_on_signal_def handlePeerDisconnection_def peer_on_connect_def peer_on_error_def
        peer_on_close_def timer_fired_def leave_def createPeer_def destroy_peer_def
        clearTimeout_def attemptReconnection_def closure_connectionState_def
        MAX_RECONNECT_ATTEMPTS_def Let_def
        split: option.splits if_splits)

lemma run_attempts_inv: "attempts_inv st \<Longrightarrow> attempts_inv (run js thr evs st)"
  unfolding run_def by (induction evs arbitrary: st) (simp_all add: step_attempts_inv)

lemma never_failed: "connectionState (run js thr evs initial_app) \<noteq> FAILED"
proof -
  have "attempts_inv initial_app" by (simp add: attempts_inv_def initial_app_def)
  then have "attempts_inv (run js thr evs initial_app)" by (rule run_attempts_inv)
  then show ?thesis by (simp add: attempts_inv_def)
qed

text \<open>
  The test of the \<open>error\<close> handler does what its comment says when the value it reads
  is \<open>CONNECTED\<close>: nothing is changed.
\<close>

lemma error_guard_when_connected_is_read: "peer_on_error CONNECTED i st = st"
  by (simp add: peer_on_error_def)

text \<open>
  With the \<open>connectionState\<close> the handler does read, an \<open>error\<close> event always ends
  with no link, whatever the state of the component is.
\<close>

lemma error_always_destroys: "peerRef (step js thr (PeerError i) st) = None"
  by (simp add: step_def closure_connectionState_def peer_on_error_def destroy_peer_def
      attemptReconnection_def Let_def split: option.splits)

text \<open>With that value, a \<open>close\<close> event never starts a reconnection.\<close>

lemma close_never_reconnects:
  "step js thr (PeerClose i) st = st\<lparr>connectionState := DISCONNECTED\<rparr>"
  by (simp add: step_def closure_connectionState_def peer_on_close_def)

text \<open>A timer whose handle no held timer has is the one found under that handle.\<close>

lemma find_fresh:
  "list_all (\<lambda>t. fst t \<noteq> n) ts \<Longrightarrow> find (\<lambda>t. fst t = n) (ts @ [(n, d, i)]) = Some (n, d, i)"
  by (induction ts) simp_all

text \<open>What the Leave button does reset.\<close>

lemma leave_resets:
  "connectionState (leave st) = DISCONNECTED \<and> peerRef (leave st) = None
   \<and> reconnectAttempts (leave st) = 0 \<and> \<not> isReconnecting (leave st)
   \<and> iceCandidateQueue (leave st) = iceCandidateQueue st
   \<and> remoteDescriptionSet (leave st) = remoteDescriptionSet st"
  by (simp add: leave_def destroy_peer_def clearTimeout_def Let_def split: option.splits)


section \<open>The claims\<close>

subsection \<open>C1: round trip of a file\<close>


subsection \<open>C2: candidates that arrive before the session description\<close>

text \<open>
  C2. Every candidate signal that arrives before a session description is to be given
  to the link only after the description, in arrival order and once. The handler does
  not keep this: it gives every signal to the link as it arrives, before it looks at its
  kind, and queues the candidate as well. In the run below the participant joins an
  occupied room, a candidate arrives and then the offer: after the candidate the link
  has been given the candidate, and after the offer it has been given the candidate, the
  offer and the candidate a second time.
\<close>

theorem C2_candidate_signalled_on_arrival_and_again:
  "map_option signalled (peerRef (run (example_runtime []) never_throws
      [RoomUsers [''a''],
       Signal \<lparr>sig_type = Some ''candidate'', candidate = Some ''c1''\<rparr>] initial_app))
     = Some [\<lparr>sig_type = Some ''candidate'', candidate = Some ''c1''\<rparr>]
   \<and> iceCandidateQueue (run (example_runtime []) never_throws
      [RoomUsers [''a''],
       Signal \<lparr>sig_type = Some ''candidate'', candidate = Some ''c1''\<rparr>] initial_app)
     = [\<lparr>sig_type = Some ''candidate'', candidate = Some ''c1''\<rparr>]
   \<and> map_option signalled (peerRef (run (example_runtime []) never_throws
      [RoomUsers [''a''],
       Signal \<lparr>sig_type = Some ''candidate'', candidate = Some ''c1''\<rparr>,
       Signal \<lparr>sig_type = Some ''offer'', candidate = None\<rparr>] initial_app))
     = Some [\<lparr>sig_type = Some ''candidate'', candidate = Some ''c1''\<rparr>,
             \<lparr>sig_type = Some ''offer'', candidate = None\<rparr>,
             \<lparr>sig_type = Some ''candidate'', candidate = Some ''c1''\<rparr>]"
  by (simp add: handler_defs initial_app_def never_throws_def)

subsection \<open>C3: chunks without metadata and chunks after the total\<close>

text \<open>
  C3, as amended. A payload taken as a chunk is never dropped: it is appended to the
  chunk buffer and its length is added to the byte count. When no metadata has been
  recorded (the announced total is still 0) or the announced total has already been
  reached, the assembly runs again over the whole buffer, the chunks of the previous
  transfer included. The link is not touched, and a following well-formed transfer of a
  non-empty file whose chunks are not JSON texts is assembled exactly, because its
  metadata resets the buffer and the count.
\<close>

theorem C3_chunk_always_appended:
  assumes "raw js d"
  shows "fileChunks (peer_on_data js d r) = fileChunks r @ [d]
       \<and> receivedBytes (peer_on_data js d r) = receivedBytes r + length d
       \<and> (ge_js js (receivedBytes r) (totalFileSize r) \<longrightarrow>
            completedFile (peer_on_data js d r) = Some (concat (fileChunks r @ [d])))
       \<and> ge_js js (receivedBytes initial_receiver) (totalFileSize initial_receiver)
       \<and> (content \<noteq> [] \<and> JSON_parse js md = Some (metadata_record name (length content))
            \<and> list_all (raw js) (slices 0 content) \<longrightarrow>
            completedFile (receive_all js (md # slices 0 content) (peer_on_data js d r))
              = Some content)
       \<and> peerRef (step js thr (PeerData d) st) = peerRef st
       \<and> connectionState (step js thr (PeerData d) st) = connectionState st"
proof -
  have a: "peer_on_data js d r = receive_chunk js d r"
    using assms by (rule peer_on_data_raw)
  have kept: "fileChunks (peer_on_data js d r) = fileChunks r @ [d]
       \<and> receivedBytes (peer_on_data js d r) = receivedBytes r + length d"
    by (simp add: a receive_chunk_def assembleAndDownloadFile_def Let_def)
  have again: "completedFile (peer_on_data js d r) = Some (concat (fileChunks r @ [d]))"
    if "ge_js js (receivedBytes r) (totalFileSize r)"
    using ge_js_mono[OF that, of "length d"]
    by (simp add: a receive_chunk_def assembleAndDownloadFile_def Let_def)
  have init: "ge_js js (receivedBytes initial_receiver) (totalFileSize initial_receiver)"
    by (simp add: initial_receiver_def ge_js_def ToNumber_def)
  have next_transfer:
    "completedFile (receive_all js (md # slices 0 content) (peer_on_data js d r)) = Some content"
    if "content \<noteq> []" "JSON_parse js md = Some (metadata_record name (length content))"
       "list_all (raw js) (slices 0 content)"
    using that by (simp add: receive_transfer)
  have link: "peerRef (step js thr (PeerData d) st) = peerRef st
       \<and> connectionState (step js thr (PeerData d) st) = connectionState st"
    by (simp add: step_def)
  from kept again init next_transfer link show ?thesis by blast
qed

text \<open>
  The stray chunk \<open>xyz\<close> with no metadata recorded, followed by the transfer of the file
  \<open>abc\<close>.
\<close>

theorem C3_chunk_always_appended_witness:
  \<open>raw (example_runtime [(''{"type":"metadata","name":"f","size":3}'', metadata_record ''f'' 3)]) ''xyz''
   \<and> fileChunks (peer_on_data (example_runtime [(''{"type":"metadata","name":"f","size":3}'', metadata_record ''f'' 3)])
                    ''xyz'' initial_receiver) = [''xyz'']
   \<and> ge_js (example_runtime [(''{"type":"metadata","name":"f","size":3}'', metadata_record ''f'' 3)])
        (receivedBytes initial_receiver) (totalFileSize initial_receiver)
   \<and> completedFile (peer_on_data (example_runtime [(''{"type":"metadata","name":"f","size":3}'', metadata_record ''f'' 3)])
                    ''xyz'' initial_receiver) = Some ''xyz''
   \<and> ''abc'' \<noteq> []
   \<and> JSON_parse (example_runtime [(''{"type":"metadata","name":"f","size":3}'', metadata_record ''f'' 3)])
        ''{"type":"metadata","name":"f","size":3}'' = Some (metadata_record ''f'' 3)
   \<and> list_all (raw (example_runtime [(''{"type":"metadata","name":"f","size":3}'', metadata_record ''f'' 3)]))
        (slices 0 ''abc'')
   \<and> completedFile
        (receive_all (example_runtime [(''{"type":"metadata","name":"f","size":3}'', metadata_record ''f'' 3)])
           (''{"type":"metadata","name":"f","size":3}'' # slices 0 ''abc'')
           (peer_on_data (example_runtime [(''{"type":"metadata","name":"f","size":3}'', metadata_record ''f'' 3)])
              ''xyz'' initial_receiver))
      = Some ''abc''\<close>
proof -
  let ?js = \<open>example_runtime [(''{"type":"metadata","name":"f","size":3}'', metadata_record ''f'' 3)]\<close>
  let ?md = \<open>''{"type":"metadata","name":"f","size":3}''\<close>
  have len: "length ''abc'' = 3" by simp
  have h0: "raw ?js ''xyz''" by (simp add: example_raw)
  have h1: "''abc'' \<noteq> []" by simp
  have h2: "JSON_parse ?js ?md = Some (metadata_record ''f'' 3)"
    by (simp add: example_runtime_def)
  have sl: "slices 0 ''abc'' = [''abc'']"
    by (simp add: slices_step slices_end CHUNK_SIZE_def)
  have h3: "list_all (raw ?js) (slices 0 ''abc'')"
    by (simp add: sl example_raw)
  note main = C3_chunk_always_appended[OF h0, of initial_receiver "''abc''" ?md "''f''",
      unfolded len]
  have e: "fileChunks initial_receiver = []"
    by (simp add: initial_receiver_def)
  show ?thesis
    using main h0 h1 h2 h3 by (simp add: e)
qed

text \<open>
  The claim as stated fails after the transfer of the file \<open>abc\<close>: the next chunk
  \<open>xyz\<close> is not dropped, it joins the chunks of the finished transfer and the artifact
  becomes \<open>abcxyz\<close>. It fails as well on a first chunk with no metadata recorded, which
  is assembled at once.
\<close>

theorem C3_counterexample:
  \<open>completedFile (receive_all (example_runtime [(''{"type":"metadata","name":"f","size":3}'', metadata_record ''f'' 3)])
       [''{"type":"metadata","name":"f","size":3}'', ''abc''] initial_receiver) = Some ''abc''
   \<and> completedFile (receive_all (example_runtime [(''{"type":"metadata","name":"f","size":3}'', metadata_record ''f'' 3)])
       [''{"type":"metadata","name":"f","size":3}'', ''abc'', ''xyz''] initial_receiver) = Some ''abcxyz''
   \<and> fileChunks (receive_all (example_runtime [(''{"type":"metadata","name":"f","size":3}'', metadata_record ''f'' 3)])
       [''{"type":"metadata","name":"f","size":3}'', ''abc'', ''xyz''] initial_receiver) = [''abc'', ''xyz'']
   \<and> fileChunks (receive_all (example_runtime [(''{"type":"metadata","name":"f","size":3}'', metadata_record ''f'' 3)])
       [''xyz''] initial_receiver) = [''xyz'']
   \<and> completedFile (receive_all (example_runtime [(''{"type":"metadata","name":"f","size":3}'', metadata_record ''f'' 3)])
       [''xyz''] initial_receiver) = Some ''xyz''\<close>
  by (simp add: example_runtime_def receive_all_def peer_on_data_def metadata_record_def
      receive_metadata_def initial_receiver_def receive_chunk_def ge_js_def ToNumber_def
      assembleAndDownloadFile_def Let_def)

subsection \<open>C4: the bound on reconnection attempts\<close>

text \<open>
  C4. After three consecutive link failures with no connection in between the state is
  to be \<open>FAILED\<close>, and before that each failure is to destroy the link, enter
  \<open>RECONNECTING\<close> and schedule the recreation of the link. The code counts the
  attempts against \<open>MAX_RECONNECT_ATTEMPTS\<close> and has the \<open>FAILED\<close> branch, but the
  flag \<open>isReconnectingRef\<close> set by the first attempt is cleared only by a connect, a
  leave or the \<open>FAILED\<close> branch itself, not when the timer recreates the link, and
  both failure handlers call \<open>attemptReconnection\<close> only while the flag is not set.
  In the run below the first participant of a room is joined by a second one and the
  link fails: the link is destroyed, the state is \<open>RECONNECTING\<close> and a recreation is
  scheduled. The timer fires and recreates the link. The link fails again: it is
  destroyed, and nothing is scheduled. After a third failure event the state is still
  \<open>RECONNECTING\<close>, one attempt has been counted, there is no link and no timer.
\<close>

theorem C4_second_failure_schedules_nothing:
  "timers (run (example_runtime []) never_throws
      [RoomUsers [], UserConnected ''b'', PeerError True] initial_app) = [(1, 2000, True)]
   \<and> connectionState (run (example_runtime []) never_throws
      [RoomUsers [], UserConnected ''b'', PeerError True] initial_app) = RECONNECTING
   \<and> peerRef (run (example_runtime []) never_throws
      [RoomUsers [], UserConnected ''b'', PeerError True, TimerFired 1] initial_app)
     = Some \<lparr>initiator = True, signalled = []\<rparr>
   \<and> isReconnecting (run (example_runtime []) never_throws
      [RoomUsers [], UserConnected ''b'', PeerError True, TimerFired 1] initial_app)
   \<and> peerRef (run (example_runtime []) never_throws
      [RoomUsers [], UserConnected ''b'', PeerError True, TimerFired 1, PeerError True]
      initial_app) = None
   \<and> timers (run (example_runtime []) never_throws
      [RoomUsers [], UserConnected ''b'', PeerError True, TimerFired 1, PeerError True]
      initial_app) = []
   \<and> connectionState (run (example_runtime []) never_throws
      [RoomUsers [], UserConnected ''b'', PeerError True, TimerFired 1, PeerError True]
      initial_app) = RECONNECTING
   \<and> connectionState (run (example_runtime []) never_throws
      [RoomUsers [], UserConnected ''b'', PeerError True, TimerFired 1, PeerError True,
       PeerError True] initial_app) = RECONNECTING
   \<and> reconnectAttempts (run (example_runtime []) never_throws
      [RoomUsers [], UserConnected ''b'', PeerError True, TimerFired 1, PeerError True,
       PeerError True] initial_app) = 1
   \<and> peerRef (run (example_runtime []) never_throws
      [RoomUsers [], UserConnected ''b'', PeerError True, TimerFired 1, PeerError True,
       PeerError True] initial_app) = None
   \<and> timers (run (example_runtime []) never_throws
      [RoomUsers [], UserConnected ''b'', PeerError True, TimerFired 1, PeerError True,
       PeerError True] initial_app) = []"
  by (simp add: handler_defs initial_app_def)

subsection \<open>C5: backpressure\<close>

text \<open>
  C5. In a send operation that is not aborted and has bytes left, \<open>sendNextChunk\<close>
  writes chunk \<open>k = chunkNumber + 1\<close>. If the write returns false, the only callback
  left is the one registered for the drain event: whatever other events are delivered,
  nothing more is written, and the drain event calls \<open>sendNextChunk\<close> again. If the
  write returns true, only chunk \<open>k\<close> has been written in this turn and the next call
  of \<open>sendNextChunk\<close> is the callback of a timer of 0 ms, so that control goes back to
  the event loop between two chunks.
\<close>

theorem C5_backpressure:
  assumes "\<not> aborted s" and "offset s < length (arrayBuffer s)"
  shows "(chan (chunkNumber s + 1) = CanContinue False \<longrightarrow>
            resume (sendNextChunk chan s) = OnDrain
          \<and> wire (sendNextChunk chan s)
              = wire s @ [take CHUNK_SIZE (drop (offset s) (arrayBuffer s))]
          \<and> (\<forall>evs. Drain \<notin> set evs \<longrightarrow>
                 wire (fold (sender_step chan) evs (sendNextChunk chan s))
                   = wire (sendNextChunk chan s))
          \<and> sender_step chan Drain (sendNextChunk chan s)
              = sendNextChunk chan ((sendNextChunk chan s)\<lparr>resume := NoResume\<rparr>))
       \<and> (chan (chunkNumber s + 1) = CanContinue True \<longrightarrow>
            resume (sendNextChunk chan s) = OnTimeout
          \<and> wire (sendNextChunk chan s)
              = wire s @ [take CHUNK_SIZE (drop (offset s) (arrayBuffer s))]
          \<and> sender_step chan Timeout (sendNextChunk chan s)
              = sendNextChunk chan ((sendNextChunk chan s)\<lparr>resume := NoResume\<rparr>))"
proof (intro conjI impI)
  assume full: "chan (chunkNumber s + 1) = CanContinue False"
  show drain: "resume (sendNextChunk chan s) = OnDrain"
    using assms full by (simp add: sendNextChunk_write)
  show "wire (sendNextChunk chan s) = wire s @ [take CHUNK_SIZE (drop (offset s) (arrayBuffer s))]"
    using assms full by (simp add: sendNextChunk_write)
  show "\<forall>evs. Drain \<notin> set evs \<longrightarrow>
          wire (fold (sender_step chan) evs (sendNextChunk chan s)) = wire (sendNextChunk chan s)"
    using drain by (simp add: waits_for_drain)
  show "sender_step chan Drain (sendNextChunk chan s)
          = sendNextChunk chan ((sendNextChunk chan s)\<lparr>resume := NoResume\<rparr>)"
    using drain by (simp add: sender_step_def)
next
  assume free: "chan (chunkNumber s + 1) = CanContinue True"
  show timeout: "resume (sendNextChunk chan s) = OnTimeout"
    using assms free by (simp add: sendNextChunk_write)
  show "wire (sendNextChunk chan s) = wire s @ [take CHUNK_SIZE (drop (offset s) (arrayBuffer s))]"
    using assms free by (simp add: sendNextChunk_write)
  show "sender_step chan Timeout (sendNextChunk chan s)
          = sendNextChunk chan ((sendNextChunk chan s)\<lparr>resume := NoResume\<rparr>)"
    using timeout by (simp add: sender_step_def)
qed

text \<open>The four bytes \<open>abcd\<close>, on a channel that is always full and on one that never is.\<close>

theorem C5_backpressure_witness:
  "\<not> aborted (idle_sender\<lparr>arrayBuffer := ''abcd''\<rparr>)
   \<and> offset (idle_sender\<lparr>arrayBuffer := ''abcd''\<rparr>)
       < length (arrayBuffer (idle_sender\<lparr>arrayBuffer := ''abcd''\<rparr>))
   \<and> always_full (chunkNumber (idle_sender\<lparr>arrayBuffer := ''abcd''\<rparr>) + 1) = CanContinue False
   \<and> resume (sendNextChunk always_full (idle_sender\<lparr>arrayBuffer := ''abcd''\<rparr>)) = OnDrain
   \<and> Drain \<notin> set [Timeout, Timeout]
   \<and> wire (fold (sender_step always_full) [Timeout, Timeout]
              (sendNextChunk always_full (idle_sender\<lparr>arrayBuffer := ''abcd''\<rparr>)))
       = wire (sendNextChunk always_full (idle_sender\<lparr>arrayBuffer := ''abcd''\<rparr>))
   \<and> never_full (chunkNumber (idle_sender\<lparr>arrayBuffer := ''abcd''\<rparr>) + 1) = CanContinue True
   \<and> resume (sendNextChunk never_full (idle_sender\<lparr>arrayBuffer := ''abcd''\<rparr>)) = OnTimeout"
proof -
  let ?s = "idle_sender\<lparr>arrayBuffer := ''abcd''\<rparr>"
  have h1: "\<not> aborted ?s" by (simp add: idle_sender_def)
  have h2: "offset ?s < length (arrayBuffer ?s)" by (simp add: idle_sender_def)
  have f: "always_full (chunkNumber ?s + 1) = CanContinue False" by (simp add: always_full_def)
  have n: "never_full (chunkNumber ?s + 1) = CanContinue True" by (simp add: never_full_def)
  have e: "Drain \<notin> set [Timeout, Timeout]" by simp
  note full = C5_backpressure[OF h1 h2, of always_full]
  note free = C5_backpressure[OF h1 h2, of never_full]
  from full f have a1: "resume (sendNextChunk always_full ?s) = OnDrain" by blast
  from full f have "\<forall>evs. Drain \<notin> set evs \<longrightarrow>
      wire (fold (sender_step always_full) evs (sendNextChunk always_full ?s))
        = wire (sendNextChunk always_full ?s)"
    by blast
  with e have a2: "wire (fold (sender_step always_full) [Timeout, Timeout]
      (sendNextChunk always_full ?s)) = wire (sendNextChunk always_full ?s)"
    by blast
  from free n have a3: "resume (sendNextChunk never_full ?s) = OnTimeout" by blast
  from h1 h2 f e n a1 a2 a3 show ?thesis by blast
qed

subsection \<open>C6: a link error while connected\<close>

text \<open>
  C6. A link error while the connection state is \<open>CONNECTED\<close> is to be logged and
  nothing else: the link stays, no reconnection starts. The handler of \<open>error\<close> has the
  test for it, but the \<open>connectionState\<close> it reads is the constant of the first call of
  \<open>App\<close>, which is \<open>DISCONNECTED\<close> whatever the state has become. In the run below
  the first participant of a room is joined by a second one and the link connects; the
  state is \<open>CONNECTED\<close> and the link is there. Then the link reports an error: the
  link is destroyed, the state is \<open>RECONNECTING\<close> and a recreation is scheduled.
\<close>

theorem C6_error_while_connected_destroys_link:
  "connectionState (run (example_runtime []) never_throws
      [RoomUsers [], UserConnected ''b'', PeerConnect] initial_app) = CONNECTED
   \<and> peerRef (run (example_runtime []) never_throws
      [RoomUsers [], UserConnected ''b'', PeerConnect] initial_app)
     = Some \<lparr>initiator = True, signalled = []\<rparr>
   \<and> peerRef (run (example_runtime []) never_throws
      [RoomUsers [], UserConnected ''b'', PeerConnect, PeerError True] initial_app) = None
   \<and> destroyed (run (example_runtime []) never_throws
      [RoomUsers [], UserConnected ''b'', PeerConnect, PeerError True] initial_app)
     = [\<lparr>initiator = True, signalled = []\<rparr>]
   \<and> connectionState (run (example_runtime []) never_throws
      [RoomUsers [], UserConnected ''b'', PeerConnect, PeerError True] initial_app) = RECONNECTING
   \<and> timers (run (example_runtime []) never_throws
      [RoomUsers [], UserConnected ''b'', PeerConnect, PeerError True] initial_app)
     = [(1, 2000, True)]"
  by (simp add: handler_defs initial_app_def)

subsection \<open>C7: the roles of the two participants\<close>

text \<open>
  C7, as amended. A participant becomes initiator exactly when its \<open>room-users\<close> list
  is empty. When two different participants join a room for which the server holds no
  entry, the first is sent the empty list and the second the list holding the first, so
  the first becomes initiator, the second does not, and exactly one of the two is
  initiator. The role is stable across a reconnection attempt: no event but
  \<open>room-users\<close> changes \<open>isInitiator\<close>; the handlers of \<open>error\<close> and \<open>close\<close>
  give \<open>attemptReconnection\<close> the \<open>initiator\<close> value of the link they were
  registered on, which the timer carries and the recreated link gets; so after a failure
  of the present link and the firing of the timer the new link has the role of the
  failed one.
\<close>

theorem C7_roles:
  assumes "rooms room = None" and "a \<noteq> b"
  shows "snd (join_room a room rooms) = []
       \<and> snd (join_room b room (fst (join_room a room rooms))) = [a]
       \<and> isInitiator (socket_on_room_users (snd (join_room a room rooms)) stA)
       \<and> \<not> isInitiator
            (socket_on_room_users (snd (join_room b room (fst (join_room a room rooms)))) stB)
       \<and> isInitiator (socket_on_room_users users st) = (users = [])
       \<and> ((\<forall>us. ev \<noteq> RoomUsers us) \<longrightarrow> isInitiator (step js thr ev st) = isInitiator st)
       \<and> (\<not> isReconnecting st \<and> reconnectAttempts st < MAX_RECONNECT_ATTEMPTS \<longrightarrow>
            timers (step js thr (PeerError i) st)
              = timers st @ [(nextTimer st, RECONNECT_DELAY, i)])
       \<and> (cs \<noteq> CONNECTED \<and> \<not> isReconnecting st
            \<and> reconnectAttempts st < MAX_RECONNECT_ATTEMPTS \<longrightarrow>
            timers (peer_on_error cs i st) = timers st @ [(nextTimer st, RECONNECT_DELAY, i)])
       \<and> ((cs = CONNECTED \<or> cs = CONNECTING) \<and> \<not> isReconnecting st
            \<and> reconnectAttempts st < MAX_RECONNECT_ATTEMPTS \<longrightarrow>
            timers (peer_on_close cs i st) = timers st @ [(nextTimer st, RECONNECT_DELAY, i)])
       \<and> (find (\<lambda>t. fst t = h) (timers st) = Some (h, dl, i) \<longrightarrow>
            peerRef (timer_fired h st) = Some \<lparr>initiator = i, signalled = []\<rparr>)
       \<and> (peerRef st = Some p \<and> \<not> isReconnecting st
            \<and> reconnectAttempts st < MAX_RECONNECT_ATTEMPTS
            \<and> list_all (\<lambda>t. fst t \<noteq> nextTimer st) (timers st) \<longrightarrow>
            peerRef (run js thr [PeerError (initiator p), TimerFired (nextTimer st)] st)
              = Some \<lparr>initiator = initiator p, signalled = []\<rparr>
          \<and> isInitiator (run js thr [PeerError (initiator p), TimerFired (nextTimer st)] st)
              = isInitiator st)"
proof -
  have snapshots: "snd (join_room a room rooms) = []"
    "snd (join_room b room (fst (join_room a room rooms))) = [a]"
    using assms by (auto simp: join_room_def Let_def)
  have rule: "isInitiator (socket_on_room_users us st') = (us = [])" for us st'
    by (simp add: socket_on_room_users_def)
  have first_two:
    "isInitiator (socket_on_room_users (snd (join_room a room rooms)) stA)
     \<and> \<not> isInitiator
          (socket_on_room_users (snd (join_room b room (fst (join_room a room rooms)))) stB)"
    by (simp add: snapshots rule)
  have stable: "(\<forall>us. ev \<noteq> RoomUsers us) \<longrightarrow> isInitiator (step js thr ev st) = isInitiator st"
    by (cases ev)
       (auto simp: step_def socket_on_user_connected_def
        socket_on_signal_def handlePeerDisconnection_def peer_on_connect_def peer_on_error_def
        peer_on_close_def timer_fired_def leave_def createPeer_def destroy_peer_def
        clearTimeout_def attemptReconnection_def Let_def
        split: option.splits if_splits)
  have on_error: "cs' \<noteq> CONNECTED \<and> \<not> isReconnecting st
            \<and> reconnectAttempts st < MAX_RECONNECT_ATTEMPTS \<longrightarrow>
            timers (peer_on_error cs' i st) = timers st @ [(nextTimer st, RECONNECT_DELAY, i)]"
    for cs'
    by (simp add: peer_on_error_def destroy_peer_def attemptReconnection_def Let_def
        split: option.splits)
  have error_event: "\<not> isReconnecting st \<and> reconnectAttempts st < MAX_RECONNECT_ATTEMPTS \<longrightarrow>
            timers (step js thr (PeerError i) st)
              = timers st @ [(nextTimer st, RECONNECT_DELAY, i)]"
    using on_error[of closure_connectionState]
    by (simp add: step_def closure_connectionState_def)
  have on_close: "(cs = CONNECTED \<or> cs = CONNECTING) \<and> \<not> isReconnecting st
            \<and> reconnectAttempts st < MAX_RECONNECT_ATTEMPTS \<longrightarrow>
            timers (peer_on_close cs i st) = timers st @ [(nextTimer st, RECONNECT_DELAY, i)]"
    by (auto simp: peer_on_close_def destroy_peer_def attemptReconnection_def Let_def
        split: option.splits)
  have recreated: "find (\<lambda>t. fst t = h) (timers st) = Some (h, dl, i) \<longrightarrow>
            peerRef (timer_fired h st) = Some \<lparr>initiator = i, signalled = []\<rparr>"
    by (simp add: timer_fired_def createPeer_def clearTimeout_def)
  have through: "peerRef (run js thr [PeerError (initiator p), TimerFired (nextTimer st)] st)
              = Some \<lparr>initiator = initiator p, signalled = []\<rparr>
          \<and> isInitiator (run js thr [PeerError (initiator p), TimerFired (nextTimer st)] st)
              = isInitiator st"
    if "peerRef st = Some p" "\<not> isReconnecting st"
      "reconnectAttempts st < MAX_RECONNECT_ATTEMPTS"
      "list_all (\<lambda>t. fst t \<noteq> nextTimer st) (timers st)"
  proof -
    have found: "find (\<lambda>t. fst t = nextTimer st)
        (timers st @ [(nextTimer st, RECONNECT_DELAY, initiator p)])
          = Some (nextTimer st, RECONNECT_DELAY, initiator p)"
      using that(4) by (rule find_fresh)
    show ?thesis
      using that(1,2,3) found
      by (simp add: run_def step_def closure_connectionState_def peer_on_error_def
          destroy_peer_def attemptReconnection_def timer_fired_def createPeer_def
          clearTimeout_def Let_def)
  qed
  from snapshots first_two rule stable error_event on_error on_close recreated through
  show ?thesis by blast
qed

text \<open>
  Members \<open>A\<close> and \<open>B\<close> join the new room \<open>room-42\<close>; the link of \<open>A\<close>, an
  initiator link, fails, the timer set for it fires and the link is recreated.
\<close>

theorem C7_roles_witness:
  "Map.empty ''room-42'' = (None :: string list option) \<and> ''A'' \<noteq> ''B''
   \<and> snd (join_room ''A'' ''room-42'' Map.empty) = []
   \<and> snd (join_room ''B'' ''room-42'' (fst (join_room ''A'' ''room-42'' Map.empty))) = [''A'']
   \<and> isInitiator (socket_on_room_users (snd (join_room ''A'' ''room-42'' Map.empty)) initial_app)
   \<and> \<not> isInitiator (socket_on_room_users
          (snd (join_room ''B'' ''room-42'' (fst (join_room ''A'' ''room-42'' Map.empty)))) initial_app)
   \<and> isInitiator (step (example_runtime []) never_throws (PeerError True)
                    (createPeer True (socket_on_room_users [] initial_app)))
      = isInitiator (createPeer True (socket_on_room_users [] initial_app))
   \<and> peerRef (createPeer True (socket_on_room_users [] initial_app))
      = Some \<lparr>initiator = True, signalled = []\<rparr>
   \<and> \<not> isReconnecting (createPeer True (socket_on_room_users [] initial_app))
   \<and> reconnectAttempts (createPeer True (socket_on_room_users [] initial_app))
       < MAX_RECONNECT_ATTEMPTS
   \<and> list_all (\<lambda>t. fst t \<noteq> nextTimer (createPeer True (socket_on_room_users [] initial_app)))
        (timers (createPeer True (socket_on_room_users [] initial_app)))
   \<and> CONNECTING \<noteq> CONNECTED \<and> (CONNECTING = CONNECTED \<or> CONNECTING = CONNECTING)
   \<and> timers (step (example_runtime []) never_throws (PeerError True)
                (createPeer True (socket_on_room_users [] initial_app)))
      = [(1, 2000, True)]
   \<and> timers (peer_on_error CONNECTING True (createPeer True (socket_on_room_users [] initial_app)))
      = [(1, 2000, True)]
   \<and> timers (peer_on_close CONNECTING True (createPeer True (socket_on_room_users [] initial_app)))
      = [(1, 2000, True)]
   \<and> find (\<lambda>t. fst t = 1) (timers (attemptReconnection True initial_app)) = Some (1, 2000, True)
   \<and> peerRef (timer_fired 1 (attemptReconnection True initial_app))
      = Some \<lparr>initiator = True, signalled = []\<rparr>
   \<and> peerRef (run (example_runtime []) never_throws [PeerError True, TimerFired 1]
                 (createPeer True (socket_on_room_users [] initial_app)))
      = Some \<lparr>initiator = True, signalled = []\<rparr>
   \<and> isInitiator (run (example_runtime []) never_throws [PeerError True, TimerFired 1]
                 (createPeer True (socket_on_room_users [] initial_app)))"
proof -
  let ?st = "createPeer True (socket_on_room_users [] initial_app)"
  let ?p = "\<lparr>initiator = True, signalled = []\<rparr>"
  have h1: "Map.empty ''room-42'' = (None :: string list option)" by simp
  have h2: "''A'' \<noteq> ''B''" by simp
  have e: "\<forall>us. PeerError True \<noteq> RoomUsers us" by simp
  have p: "peerRef ?st = Some ?p"
    by (simp add: createPeer_def)
  have ip: "initiator ?p = True" by simp
  have nr: "\<not> isReconnecting ?st"
    by (simp add: createPeer_def socket_on_room_users_def initial_app_def)
  have lt: "reconnectAttempts ?st < MAX_RECONNECT_ATTEMPTS"
    by (simp add: createPeer_def socket_on_room_users_def initial_app_def
        MAX_RECONNECT_ATTEMPTS_def)
  have fresh: "list_all (\<lambda>t. fst t \<noteq> nextTimer ?st) (timers ?st)"
    by (simp add: createPeer_def socket_on_room_users_def initial_app_def)
  have c: "CONNECTING \<noteq> CONNECTED" "CONNECTING = CONNECTED \<or> CONNECTING = CONNECTING"
    by simp_all
  have tm: "timers ?st @ [(nextTimer ?st, RECONNECT_DELAY, True)] = [(1, 2000, True)]"
    by (simp add: createPeer_def socket_on_room_users_def initial_app_def RECONNECT_DELAY_def)
  have nt: "nextTimer ?st = 1"
    by (simp add: createPeer_def socket_on_room_users_def initial_app_def)
  have init: "isInitiator ?st"
    by (simp add: createPeer_def socket_on_room_users_def)
  have fd: "find (\<lambda>t. fst t = 1) (timers (attemptReconnection True initial_app))
              = Some (1, 2000, True)"
    by (simp add: attemptReconnection_def initial_app_def MAX_RECONNECT_ATTEMPTS_def
        RECONNECT_DELAY_def)
  note one = C7_roles[where rooms = Map.empty and room = "''room-42''" and a = "''A''"
      and b = "''B''" and stA = initial_app and stB = initial_app and users = "[]"
      and st = ?st and ev = "PeerError True"
      and js = "example_runtime []" and thr = never_throws and i = True and h = 1
      and dl = 2000 and cs = CONNECTING and p = ?p, OF h1 h2]
  note two = C7_roles[where rooms = Map.empty and room = "''room-42''" and a = "''A''"
      and b = "''B''" and stA = initial_app and stB = initial_app and users = "[]"
      and st = "attemptReconnection True initial_app" and ev = "PeerError True"
      and js = "example_runtime []" and thr = never_throws and i = True and h = 1
      and dl = 2000 and cs = CONNECTING and p = ?p, OF h1 h2]
  from one have s1: "snd (join_room ''A'' ''room-42'' Map.empty) = []"
    and s2: "snd (join_room ''B'' ''room-42'' (fst (join_room ''A'' ''room-42'' Map.empty))) = [''A'']"
    and s3: "isInitiator (socket_on_room_users (snd (join_room ''A'' ''room-42'' Map.empty)) initial_app)"
    and s4: "\<not> isInitiator (socket_on_room_users
          (snd (join_room ''B'' ''room-42'' (fst (join_room ''A'' ''room-42'' Map.empty)))) initial_app)"
    by blast+
  from one e have s5: "isInitiator (step (example_runtime []) never_throws (PeerError True) ?st)
      = isInitiator ?st"
    by blast
  from one nr lt have "timers (step (example_runtime []) never_throws (PeerError True) ?st)
      = timers ?st @ [(nextTimer ?st, RECONNECT_DELAY, True)]"
    by blast
  then have s6: "timers (step (example_runtime []) never_throws (PeerError True) ?st)
      = [(1, 2000, True)]"
    by (simp only: tm)
  from one c nr lt have "timers (peer_on_error CONNECTING True ?st)
      = timers ?st @ [(nextTimer ?st, RECONNECT_DELAY, True)]"
    by blast
  then have s7: "timers (peer_on_error CONNECTING True ?st) = [(1, 2000, True)]"
    by (simp only: tm)
  from one c nr lt have "timers (peer_on_close CONNECTING True ?st)
      = timers ?st @ [(nextTimer ?st, RECONNECT_DELAY, True)]"
    by blast
  then have s8: "timers (peer_on_close CONNECTING True ?st) = [(1, 2000, True)]"
    by (simp only: tm)
  from two fd have s9: "peerRef (timer_fired 1 (attemptReconnection True initial_app))
      = Some ?p"
    by blast
  from one p nr lt fresh have
    "peerRef (run (example_runtime []) never_throws
        [PeerError (initiator ?p), TimerFired (nextTimer ?st)] ?st)
       = Some \<lparr>initiator = initiator ?p, signalled = []\<rparr>
     \<and> isInitiator (run (example_runtime []) never_throws
        [PeerError (initiator ?p), TimerFired (nextTimer ?st)] ?st) = isInitiator ?st"
    by blast
  then have s10: "peerRef (run (example_runtime []) never_throws [PeerError True, TimerFired 1] ?st)
       = Some ?p"
    and s11: "isInitiator (run (example_runtime []) never_throws [PeerError True, TimerFired 1] ?st)"
    using init by (simp_all only: ip nt)
  show ?thesis
    apply (intro conjI)
    apply (rule h1) apply (rule h2) apply (rule s1) apply (rule s2) apply (rule s3)
    apply (rule s4) apply (rule s5) apply (rule p) apply (rule nr) apply (rule lt)
    apply (rule fresh) apply (rule c(1)) apply (rule c(2)) apply (rule s6) apply (rule s7)
    apply (rule s8) apply (rule fd) apply (rule s9) apply (rule s10) apply (rule s11)
    done
qed

text \<open>
  The claim as stated fails for a pair that joins a room the server already holds. \<open>A\<close>
  and \<open>B\<close> join a new room, \<open>A\<close> disconnects and joins again as \<open>A2\<close>: \<open>B\<close> was
  sent the list holding \<open>A\<close>, \<open>A2\<close> is sent the list holding \<open>B\<close>, and of the two
  members of the room neither is initiator, \<open>B\<close> also after the departure and the
  arrival it is told of.
\<close>

theorem C7_counterexample:
  "snd (join_room ''B'' ''room-42'' (fst (join_room ''A'' ''room-42'' Map.empty))) = [''A'']
   \<and> snd (join_room ''A2'' ''room-42''
          (disconnect ''A''
             (fst (join_room ''B'' ''room-42'' (fst (join_room ''A'' ''room-42'' Map.empty))))))
      = [''B'']
   \<and> \<not> isInitiator (run (example_runtime []) never_throws
          [RoomUsers [''A''], UserDisconnected ''A'', UserConnected ''A2''] initial_app)
   \<and> \<not> isInitiator (run (example_runtime []) never_throws [RoomUsers [''B'']] initial_app)"
  by (simp add: join_room_def disconnect_def Let_def handler_defs initial_app_def)

subsection \<open>C8: a file of 150000 bytes\<close>


subsection \<open>C9: the Leave button\<close>

text \<open>
  C9. The leave action is to end in \<open>DISCONNECTED\<close> with the link destroyed, the
  reconnection counters cleared and the candidate queue cleared. The click handler of
  the Leave button does the first three and does not touch \<open>iceCandidateQueueRef\<close>,
  which \<open>handlePeerDisconnection\<close> and \<open>createPeer\<close> do reset. In the run below a
  participant joins an occupied room, a candidate arrives and is queued, and the user
  leaves: the queue still holds the candidate.
\<close>

theorem C9_leave_keeps_candidate_queue:
  "iceCandidateQueue (run (example_runtime []) never_throws
      [RoomUsers [''a''],
       Signal \<lparr>sig_type = Some ''candidate'', candidate = Some ''c1''\<rparr>, Leave] initial_app)
     = [\<lparr>sig_type = Some ''candidate'', candidate = Some ''c1''\<rparr>]
   \<and> connectionState (run (example_runtime []) never_throws
      [RoomUsers [''a''],
       Signal \<lparr>sig_type = Some ''candidate'', candidate = Some ''c1''\<rparr>, Leave] initial_app)
     = DISCONNECTED
   \<and> peerRef (run (example_runtime []) never_throws
      [RoomUsers [''a''],
       Signal \<lparr>sig_type = Some ''candidate'', candidate = Some ''c1''\<rparr>, Leave] initial_app)
     = None
   \<and> destroyed (run (example_runtime []) never_throws
      [RoomUsers [''a''],
       Signal \<lparr>sig_type = Some ''candidate'', candidate = Some ''c1''\<rparr>, Leave] initial_app)
     = [\<lparr>initiator = False,
         signalled = [\<lparr>sig_type = Some ''candidate'', candidate = Some ''c1''\<rparr>]\<rparr>]
   \<and> reconnectAttempts (run (example_runtime []) never_throws
      [RoomUsers [''a''],
       Signal \<lparr>sig_type = Some ''candidate'', candidate = Some ''c1''\<rparr>, Leave] initial_app)
     = 0"
  by (simp add: handler_defs initial_app_def never_throws_def)

subsection \<open>C10: a JSON text that is not metadata\<close>

text \<open>
  C10. A payload whose text is JSON and whose \<open>type\<close> is not \<open>'metadata'\<close> is to be
  discarded: not recorded, not appended, the byte count unchanged. The handler does so
  for every JSON value but \<open>null\<close>. The text \<open>null\<close> is JSON; reading \<open>message.type\<close>
  of the value throws inside the \<open>try\<close> block, and the \<open>catch\<close> branch, written for a
  text that is not JSON, takes the four bytes as a file chunk.
\<close>

theorem C10_null_is_taken_as_chunk:
  "JSON_parse (example_runtime [(''null'', JNull)]) ''null'' = Some JNull
   \<and> peer_on_data (example_runtime [(''null'', JNull)]) ''null'' r
       = receive_chunk (example_runtime [(''null'', JNull)]) ''null'' r
   \<and> fileChunks (peer_on_data (example_runtime [(''null'', JNull)]) ''null'' r)
       = fileChunks r @ [''null'']
   \<and> receivedBytes (peer_on_data (example_runtime [(''null'', JNull)]) ''null'' r)
       = receivedBytes r + 4"
  by (simp add: peer_on_data_def example_runtime_def receive_chunk_def
      assembleAndDownloadFile_def Let_def)

end
